theory Spec2Isabelle
  imports Complex_Main "HOL-Library.Multiset"
begin

section \<open>Currency pairs (package currency/pair)\<close>

text \<open>
  The engine helpers work on \<open>pair.CurrencyPair\<close> values. The declaration of the type and
  the functions of package \<open>pair\<close> are not part of the sources at hand; the engine code only
  shows the fields \<open>FirstCurrency\<close> and \<open>SecondCurrency\<close>, the data model adds the display
  delimiter. A \<open>pair.CurrencyItem\<close> is a string.
\<close>

type_synonym CurrencyItem = string

record CurrencyPair =
  Delimiter :: string
  FirstCurrency :: CurrencyItem
  SecondCurrency :: CurrencyItem

text \<open>
  Modelled from the spec: \<open>pair.NewCurrencyPair\<close> is missing from the sources. It builds the
  ordered pair of the two given symbols; no display delimiter is set.
\<close>

definition NewCurrencyPair :: "string \<Rightarrow> string \<Rightarrow> CurrencyPair" where
  "NewCurrencyPair first second =
     \<lparr>Delimiter = [], FirstCurrency = first, SecondCurrency = second\<rparr>"

text \<open>
  Modelled from the spec: \<open>CurrencyPair.Swap\<close> is missing from the sources. It yields the
  swapped pair (second, first).
\<close>

definition Swap :: "CurrencyPair \<Rightarrow> CurrencyPair" where
  "Swap p = p\<lparr>FirstCurrency := SecondCurrency p, SecondCurrency := FirstCurrency p\<rparr>"

text \<open>
  Modelled from the spec: \<open>CurrencyPair.Equal\<close> is missing from the sources. The data model
  requires two equality modes on the (first, second) currencies: with \<open>exact = True\<close> the
  strict order match, with \<open>exact = False\<close> the either-order match. The delimiter is display
  only and takes no part.
\<close>

definition Equal :: "CurrencyPair \<Rightarrow> CurrencyPair \<Rightarrow> bool \<Rightarrow> bool" where
  "Equal c p exact =
     (if \<not> exact \<and> FirstCurrency c = SecondCurrency p \<and> SecondCurrency c = FirstCurrency p
      then True
      else FirstCurrency c = FirstCurrency p \<and> SecondCurrency c = SecondCurrency p)"

text \<open>
  Modelled from the spec: \<open>pair.Contains\<close> is missing from the sources. A pair is a duplicate
  of a list entry if it matches that entry under the equality mode in effect.
\<close>

definition Contains :: "CurrencyPair list \<Rightarrow> CurrencyPair \<Rightarrow> bool \<Rightarrow> bool" where
  "Contains pairs p exact = list_ex (\<lambda>x. Equal x p exact) pairs"

text \<open>
  Modelled from the spec: \<open>pair.ContainsCurrency\<close> and \<open>pair.RemovePairsByFilter\<close> are missing
  from the sources. The filter drops every pair that contains the given symbol as either of
  its currencies and keeps the others in order.
\<close>

definition ContainsCurrency :: "CurrencyPair \<Rightarrow> string \<Rightarrow> bool" where
  "ContainsCurrency p c = (FirstCurrency p = c \<or> SecondCurrency p = c)"

definition RemovePairsByFilter :: "CurrencyPair list \<Rightarrow> string \<Rightarrow> CurrencyPair list" where
  "RemovePairsByFilter p flt = filter (\<lambda>x. \<not> ContainsCurrency x flt) p"

section \<open>Symbol translation (package currency/translation)\<close>

datatype error = ErrExchangeNotFound | ErrNoTranslation | ErrOther string

text \<open>
  \<open>translation.GetTranslation\<close> and its table are missing from the sources, so the functions
  below take the lookup as a parameter \<open>tr\<close>: \<open>Inr s\<close> is the translated symbol, \<open>Inl e\<close> the
  error of a symbol without translation.

  Modelled from the spec: the table is a symbol-equivalence mapping, the examples given are
  BTC and XBT (in both directions) and, in the comment of \<open>GetRelatableCurrencies\<close>, USD and
  USDT. \<open>GetTranslation\<close> looks a symbol up on either side of an entry and fails explicitly
  when there is none.
\<close>

definition translationTable :: "(CurrencyItem \<times> CurrencyItem) list" where
  "translationTable = [(''BTC'', ''XBT''), (''USD'', ''USDT'')]"

fun lookupTranslation :: "(CurrencyItem \<times> CurrencyItem) list \<Rightarrow> CurrencyItem \<Rightarrow> error + CurrencyItem" where
  "lookupTranslation [] currency = Inl ErrNoTranslation"
| "lookupTranslation ((k, v) # rest) currency =
     (if k = currency then Inr v
      else if v = currency then Inr k
      else lookupTranslation rest currency)"

definition GetTranslation :: "CurrencyItem \<Rightarrow> error + CurrencyItem" where
  "GetTranslation currency = lookupTranslation translationTable currency"

section \<open>Relatable pairs (engine/helpers.go)\<close>

text \<open>
  \<open>GetRelatableCurrencies\<close> keeps a result slice \<open>pairs\<close> that its two closures update. The
  closures become functions from the slice to the new slice.
\<close>

definition addPair :: "CurrencyPair list \<Rightarrow> CurrencyPair \<Rightarrow> CurrencyPair list" where
  "addPair pairs p = (if Contains pairs p True then pairs else pairs @ [p])"

definition buildPairs ::
  "(CurrencyItem \<Rightarrow> error + CurrencyItem) \<Rightarrow> CurrencyPair list \<Rightarrow> CurrencyPair \<Rightarrow> bool \<Rightarrow> CurrencyPair list" where
  "buildPairs tr pairs p incOrig =
     (let pairs1 = (if incOrig then addPair pairs p else pairs);
          pairs2 = (case tr (FirstCurrency p) of
                      Inl err \<Rightarrow> pairs1
                    | Inr first \<Rightarrow>
                        (let q = addPair pairs1 (NewCurrencyPair first (SecondCurrency p))
                         in case tr (SecondCurrency p) of
                              Inl err \<Rightarrow> q
                            | Inr second \<Rightarrow> addPair q (NewCurrencyPair first second)))
      in case tr (SecondCurrency p) of
           Inl err \<Rightarrow> pairs2
         | Inr second \<Rightarrow> addPair pairs2 (NewCurrencyPair (FirstCurrency p) second))"

definition GetRelatableCurrencies ::
  "(CurrencyItem \<Rightarrow> error + CurrencyItem) \<Rightarrow> CurrencyPair \<Rightarrow> bool \<Rightarrow> bool \<Rightarrow> CurrencyPair list" where
  "GetRelatableCurrencies tr p incOrig incUSDT =
     (let pairs = buildPairs tr [] p incOrig;
          pairs' = buildPairs tr pairs (Swap p) incOrig
      in if \<not> incUSDT then RemovePairsByFilter pairs' ''USDT'' else pairs')"

section \<open>Configuration and available pairs (config, engine/helpers.go)\<close>

type_synonym AssetType = string

definition AssetTypeSpot :: AssetType where
  "AssetTypeSpot = ''Spot''"

definition AssetTypeFutures :: AssetType where
  "AssetTypeFutures = ''Futures''"

text \<open>
  The declarations of the configuration types are missing from the sources. The records
  keep the fields that the configuration code reads on the way to the available pairs. The
  fields \<open>CurrencyPairs\<close>, \<open>Spot\<close>, \<open>Futures\<close> and \<open>ConfigFormat\<close> are pointers in the
  source (they are compared with nil, assigned from \<open>new\<close>, dereferenced with \<open>*\<close> or
  returned as \<open>*CurrencyPairConfig\<close>); they are options here, \<open>None\<close> for nil. The type
  \<open>CurrencyPairFormatConfig\<close> of a pair format is the parameter \<open>'f\<close>.
\<close>

record 'f CurrencyPairConfig =
  Available :: string
  ConfigFormat :: "'f option"

record 'f CurrencyPairsConfig =
  UseGlobalPairFormat :: bool
  ConfigFormat :: "'f option"
  Spot :: "'f CurrencyPairConfig option"
  Futures :: "'f CurrencyPairConfig option"

record 'f ExchangeConfig =
  Name :: string
  Enabled :: bool
  CurrencyPairs :: "'f CurrencyPairsConfig option"

text \<open>
  A call either returns a value or panics; the dereference of a nil pointer panics. A
  function returning a value and an error returns a sum, \<open>Inl\<close> for the error.
\<close>

datatype 'a run = Panic | Return 'a

text \<open>
  \<open>Config.GetExchangeConfig\<close> returns the first configured exchange of the given name, the
  names compared in lower case. \<open>common.StringToLower\<close> is missing from the sources and is
  the parameter \<open>lower\<close>.
\<close>

fun GetExchangeConfig ::
  "(string \<Rightarrow> string) \<Rightarrow> 'f ExchangeConfig list \<Rightarrow> string \<Rightarrow> error + 'f ExchangeConfig" where
  "GetExchangeConfig lower [] name = Inl (ErrOther (''Exchange '' @ name @ '': Not found.''))"
| "GetExchangeConfig lower (x # xs) name =
     (if lower (Name x) = lower name then Inr x else GetExchangeConfig lower xs name)"

definition GetPairFormat ::
  "(string \<Rightarrow> string) \<Rightarrow> 'f ExchangeConfig list \<Rightarrow> string \<Rightarrow> AssetType \<Rightarrow> (error + 'f) run" where
  "GetPairFormat lower c exchName assetType =
     (case GetExchangeConfig lower c exchName of
        Inl err \<Rightarrow> Return (Inl err)
      | Inr exchCfg \<Rightarrow>
          (case CurrencyPairs exchCfg of
             None \<Rightarrow> Return (Inl (ErrOther ''exchange currency pairs type is nil''))
           | Some cp \<Rightarrow>
               if UseGlobalPairFormat cp
               then (case CurrencyPairsConfig.ConfigFormat cp of
                       None \<Rightarrow> Panic
                     | Some fmt \<Rightarrow> Return (Inr fmt))
               else if assetType = AssetTypeSpot
               then (case Spot cp of
                       None \<Rightarrow> Panic
                     | Some sp \<Rightarrow>
                         (case CurrencyPairConfig.ConfigFormat sp of
                            None \<Rightarrow> Panic
                          | Some fmt \<Rightarrow> Return (Inr fmt)))
               else (case Futures cp of
                       None \<Rightarrow> Panic
                     | Some fu \<Rightarrow>
                         (case CurrencyPairConfig.ConfigFormat fu of
                            None \<Rightarrow> Panic
                          | Some fmt \<Rightarrow> Return (Inr fmt)))))"

text \<open>
  \<open>Config.GetAvailablePairs\<close>. \<open>pair.FormatPairs\<close> and \<open>common.SplitStrings\<close> are missing
  from the sources: the parameter \<open>formatPairs\<close> stands for the pairs they produce from the
  comma-separated string of a pair store and the pair format. Every asset type other than
  Spot reads the Futures store.
\<close>

definition GetAvailablePairs ::
  "(string \<Rightarrow> string) \<Rightarrow> (string \<Rightarrow> 'f \<Rightarrow> CurrencyPair list) \<Rightarrow> 'f ExchangeConfig list \<Rightarrow>
   string \<Rightarrow> AssetType \<Rightarrow> (error + CurrencyPair list) run" where
  "GetAvailablePairs lower formatPairs c exchName assetType =
     (case GetExchangeConfig lower c exchName of
        Inl err \<Rightarrow> Return (Inl err)
      | Inr exchCfg \<Rightarrow>
          (case GetPairFormat lower c exchName assetType of
             Panic \<Rightarrow> Panic
           | Return (Inl err) \<Rightarrow> Return (Inl err)
           | Return (Inr pairFormat) \<Rightarrow>
               (case CurrencyPairs exchCfg of
                  None \<Rightarrow> Panic
                | Some cp \<Rightarrow>
                    if assetType = AssetTypeSpot
                    then (case Spot cp of
                            None \<Rightarrow> Panic
                          | Some sp \<Rightarrow> Return (Inr (formatPairs (Available sp) pairFormat)))
                    else (case Futures cp of
                            None \<Rightarrow> Panic
                          | Some fu \<Rightarrow> Return (Inr (formatPairs (Available fu) pairFormat))))))"

text \<open>
  \<open>GetAllAvailablePairs\<close>. The inner loop appends every fetched pair that the list does not
  yet contain under either-order equality. The outer loop skips a disabled exchange when
  asked to and an exchange whose fetch returns an error; it has no recover, so a panic of
  the fetch ends the call.
\<close>

fun appendAvailable :: "CurrencyPair list \<Rightarrow> CurrencyPair list \<Rightarrow> CurrencyPair list" where
  "appendAvailable pairList [] = pairList"
| "appendAvailable pairList (y # pairs) =
     (if Contains pairList y False then appendAvailable pairList pairs
      else appendAvailable (pairList @ [y]) pairs)"

fun availableLoop ::
  "(string \<Rightarrow> string) \<Rightarrow> (string \<Rightarrow> 'f \<Rightarrow> CurrencyPair list) \<Rightarrow> 'f ExchangeConfig list \<Rightarrow>
   bool \<Rightarrow> AssetType \<Rightarrow> CurrencyPair list \<Rightarrow> 'f ExchangeConfig list \<Rightarrow> CurrencyPair list run" where
  "availableLoop lower formatPairs c enabledExchangesOnly assetType pairList [] =
     Return pairList"
| "availableLoop lower formatPairs c enabledExchangesOnly assetType pairList (x # xs) =
     (if enabledExchangesOnly \<and> \<not> Enabled x
      then availableLoop lower formatPairs c enabledExchangesOnly assetType pairList xs
      else case GetAvailablePairs lower formatPairs c (Name x) assetType of
             Panic \<Rightarrow> Panic
           | Return (Inl err) \<Rightarrow>
               availableLoop lower formatPairs c enabledExchangesOnly assetType pairList xs
           | Return (Inr pairs) \<Rightarrow>
               availableLoop lower formatPairs c enabledExchangesOnly assetType
                 (appendAvailable pairList pairs) xs)"

definition GetAllAvailablePairs ::
  "(string \<Rightarrow> string) \<Rightarrow> (string \<Rightarrow> 'f \<Rightarrow> CurrencyPair list) \<Rightarrow> 'f ExchangeConfig list \<Rightarrow>
   bool \<Rightarrow> AssetType \<Rightarrow> CurrencyPair list run" where
  "GetAllAvailablePairs lower formatPairs c enabledExchangesOnly assetType =
     availableLoop lower formatPairs c enabledExchangesOnly assetType [] c"

text \<open>No two entries of a list are equal under either-order equality.\<close>

fun noDuplicatePairs :: "CurrencyPair list \<Rightarrow> bool" where
  "noDuplicatePairs [] = True"
| "noDuplicatePairs (p # ps) = (\<not> Contains ps p False \<and> noDuplicatePairs ps)"

section \<open>The exchange registry (exchanges/exchange_interfaces.go)\<close>

text \<open>
  \<open>Bot.Exchanges\<close> is a slice of \<open>exchange.IBotExchange\<close> values, some of which may be nil.
  An exchange is modelled by the answers of the interface methods the engine calls. A
  method returning a value and an error yields a pair; the error is \<open>None\<close> for nil. The
  types \<open>ticker.Price\<close> and \<open>orderbook.Base\<close> are the parameters \<open>'t\<close> and \<open>'o\<close>.
\<close>

record ('t, 'o) IBotExchange =
  GetName :: string
  IsEnabled :: bool
  SupportsREST :: bool
  SupportsRESTTickerBatchUpdates :: bool
  GetAssetTypes :: "AssetType list"
  GetEnabledPairs :: "AssetType \<Rightarrow> CurrencyPair list"
  FetchTicker :: "CurrencyPair \<Rightarrow> AssetType \<Rightarrow> 't \<times> error option"
  UpdateTicker :: "CurrencyPair \<Rightarrow> AssetType \<Rightarrow> 't \<times> error option"
  FetchOrderbook :: "CurrencyPair \<Rightarrow> AssetType \<Rightarrow> 'o \<times> error option"
  UpdateOrderbook :: "CurrencyPair \<Rightarrow> AssetType \<Rightarrow> 'o \<times> error option"

section \<open>Lookups by exchange name (engine/helpers.go)\<close>

text \<open>
  \<open>GetSpecificOrderbook\<close> and \<open>GetSpecificTicker\<close> start from the zero value and a nil
  error, scan \<open>Bot.Exchanges\<close> and stop at the first non-nil exchange of the given name.
  The zero value of the result type and \<open>pair.NewCurrencyPairFromString\<close> (missing from the
  sources) are parameters.
\<close>

fun GetSpecificOrderbook ::
  "'o \<Rightarrow> (string \<Rightarrow> CurrencyPair) \<Rightarrow> ('t, 'o) IBotExchange option list \<Rightarrow>
   string \<Rightarrow> string \<Rightarrow> AssetType \<Rightarrow> 'o \<times> error option" where
  "GetSpecificOrderbook zero fromString [] currency exchangeName assetType = (zero, None)"
| "GetSpecificOrderbook zero fromString (None # xs) currency exchangeName assetType =
     GetSpecificOrderbook zero fromString xs currency exchangeName assetType"
| "GetSpecificOrderbook zero fromString (Some e # xs) currency exchangeName assetType =
     (if GetName e = exchangeName then FetchOrderbook e (fromString currency) assetType
      else GetSpecificOrderbook zero fromString xs currency exchangeName assetType)"

fun GetSpecificTicker ::
  "'t \<Rightarrow> (string \<Rightarrow> CurrencyPair) \<Rightarrow> ('t, 'o) IBotExchange option list \<Rightarrow>
   string \<Rightarrow> string \<Rightarrow> AssetType \<Rightarrow> 't \<times> error option" where
  "GetSpecificTicker zero fromString [] currency exchangeName assetType = (zero, None)"
| "GetSpecificTicker zero fromString (None # xs) currency exchangeName assetType =
     GetSpecificTicker zero fromString xs currency exchangeName assetType"
| "GetSpecificTicker zero fromString (Some e # xs) currency exchangeName assetType =
     (if GetName e = exchangeName then FetchTicker e (fromString currency) assetType
      else GetSpecificTicker zero fromString xs currency exchangeName assetType)"

section \<open>Account information (exchanges/exchange_types.go)\<close>

text \<open>
  \<open>TotalValue\<close> and \<open>Hold\<close> are float64 in the source. The type of these values is the
  parameter \<open>'v\<close>. The functions below use its addition, its zero and its order as the
  source uses \<open>+=\<close>, \<open>0\<close> and \<open><=\<close>, and the properties of the ledger seeding assume no law
  of the addition: they hold for the rounding addition of float64 as for the exact one. Of
  the order they assume at most that it is a preorder, which holds of float64 without NaN.
  Only the order-independence of the collation is stated for the exact reals.
\<close>

record 'v AccountCurrencyInfo =
  CurrencyName :: string
  TotalValue :: 'v
  Hold :: 'v

record 'v Account =
  ID :: string
  Currencies :: "'v AccountCurrencyInfo list"

record 'v AccountInfo =
  Exchange :: string
  Accounts :: "'v Account list"

fun GetAccountCurrencyInfoByExchangeName ::
  "'v AccountInfo list \<Rightarrow> string \<Rightarrow> 'v AccountInfo \<times> error option" where
  "GetAccountCurrencyInfoByExchangeName [] exchangeName =
     (\<lparr>Exchange = [], Accounts = []\<rparr>, Some ErrExchangeNotFound)"
| "GetAccountCurrencyInfoByExchangeName (a # accounts) exchangeName =
     (if Exchange a = exchangeName then (a, None)
      else GetAccountCurrencyInfoByExchangeName accounts exchangeName)"

text \<open>
  The three nested loops of \<open>GetCollatedExchangeAccountInfoByCoin\<close> and of
  \<open>SeedExchangeAccountInfo\<close> visit the currency entries of all accounts in order.
\<close>

definition accountCurrencies :: "'v AccountInfo \<Rightarrow> 'v AccountCurrencyInfo list" where
  "accountCurrencies accounts = concat (map Currencies (Accounts accounts))"

definition collateEntry ::
  "(string \<rightharpoonup> ('v::plus) AccountCurrencyInfo) \<Rightarrow> 'v AccountCurrencyInfo \<Rightarrow>
   (string \<rightharpoonup> 'v AccountCurrencyInfo)" where
  "collateEntry result accountCurrencyInfo =
     (let currencyName = CurrencyName accountCurrencyInfo;
          avail = TotalValue accountCurrencyInfo;
          onHold = Hold accountCurrencyInfo
      in case result currencyName of
           None \<Rightarrow>
             result(currencyName \<mapsto>
               \<lparr>CurrencyName = currencyName, TotalValue = avail, Hold = onHold\<rparr>)
         | Some info \<Rightarrow>
             result(currencyName \<mapsto>
               info\<lparr>Hold := Hold info + onHold, TotalValue := TotalValue info + avail\<rparr>))"

definition GetCollatedExchangeAccountInfoByCoin ::
  "('v::plus) AccountInfo list \<Rightarrow> (string \<rightharpoonup> 'v AccountCurrencyInfo)" where
  "GetCollatedExchangeAccountInfoByCoin exchAccounts =
     foldl collateEntry Map.empty (concat (map accountCurrencies exchAccounts))"

section \<open>The portfolio ledger (package portfolio)\<close>

text \<open>
  \<open>SeedExchangeAccountInfo\<close> appends \<open>portfolio.Address\<close> values with the four fields below
  to \<open>port.Addresses\<close>; the ledger is modelled by that slice.
\<close>

record 'v Address =
  Address :: string
  CoinType :: string
  Balance :: 'v
  Description :: string

type_synonym 'v Base = "'v Address list"

text \<open>
  Modelled from the spec: the constant \<open>portfolio.PortfolioAddressExchange\<close>, the description
  carried by every exchange entry of the ledger, is missing from the sources. No proof below
  depends on its value.
\<close>

definition PortfolioAddressExchange :: string where
  "PortfolioAddressExchange = ''Exchange''"

text \<open>
  Modelled from the spec: the methods of the portfolio ledger are missing from the sources.
  \<open>ExchangeAddressExists\<close> tells whether the ledger holds an entry for the exchange name and
  the currency name; \<open>GetAddressBalance\<close> returns the stored balance of the entry with the
  given exchange name, currency name and description, when there is one;
  \<open>RemoveExchangeAddress\<close> removes the entry of the exchange and currency (the first one
  found); \<open>UpdateExchangeAddressBalance\<close> stores a new balance in the entry of the exchange
  and currency.
\<close>

definition isExchangeAddress :: "string \<Rightarrow> string \<Rightarrow> 'v Address \<Rightarrow> bool" where
  "isExchangeAddress exchangeName coinType a =
     (Address a = exchangeName \<and> CoinType a = coinType)"

definition ExchangeAddressExists :: "'v Base \<Rightarrow> string \<Rightarrow> string \<Rightarrow> bool" where
  "ExchangeAddressExists port exchangeName coinType =
     list_ex (isExchangeAddress exchangeName coinType) port"

fun GetAddressBalance :: "'v Base \<Rightarrow> string \<Rightarrow> string \<Rightarrow> string \<Rightarrow> 'v option" where
  "GetAddressBalance [] address coinType description = None"
| "GetAddressBalance (a # port) address coinType description =
     (if Address a = address \<and> CoinType a = coinType \<and> Description a = description
      then Some (Balance a)
      else GetAddressBalance port address coinType description)"

fun RemoveExchangeAddress :: "'v Base \<Rightarrow> string \<Rightarrow> string \<Rightarrow> 'v Base" where
  "RemoveExchangeAddress [] exchangeName coinType = []"
| "RemoveExchangeAddress (a # port) exchangeName coinType =
     (if isExchangeAddress exchangeName coinType a then port
      else a # RemoveExchangeAddress port exchangeName coinType)"

definition UpdateExchangeAddressBalance ::
  "'v Base \<Rightarrow> string \<Rightarrow> string \<Rightarrow> 'v \<Rightarrow> 'v Base" where
  "UpdateExchangeAddressBalance port exchangeName coinType balance =
     map (\<lambda>a. if isExchangeAddress exchangeName coinType a then a\<lparr>Balance := balance\<rparr> else a)
       port"

section \<open>Seeding the ledger (engine/helpers.go)\<close>

text \<open>
  First loop of \<open>SeedExchangeAccountInfo\<close>, per exchange: every currency entry is added to
  the entries of the same name in \<open>currencies\<close>, which sets the flag \<open>update\<close>; without such an
  entry a new one is appended.
\<close>

fun addToCurrencies ::
  "('v::plus) AccountCurrencyInfo \<Rightarrow> 'v AccountCurrencyInfo list \<Rightarrow>
   'v AccountCurrencyInfo list \<times> bool" where
  "addToCurrencies info [] = ([], False)"
| "addToCurrencies info (c # currencies) =
     (case addToCurrencies info currencies of
        (rest, update) \<Rightarrow>
          if CurrencyName info = CurrencyName c
          then (c\<lparr>Hold := Hold c + Hold info, TotalValue := TotalValue c + TotalValue info\<rparr> # rest,
                True)
          else (c # rest, update))"

definition sumCurrency ::
  "('v::plus) AccountCurrencyInfo list \<Rightarrow> 'v AccountCurrencyInfo \<Rightarrow>
   'v AccountCurrencyInfo list" where
  "sumCurrency currencies info =
     (case addToCurrencies info currencies of
        (currencies', update) \<Rightarrow>
          if update then currencies'
          else currencies' @
                 [\<lparr>CurrencyName = CurrencyName info, TotalValue = TotalValue info,
                   Hold = Hold info\<rparr>])"

definition exchangeTotals :: "('v::plus) AccountInfo \<Rightarrow> 'v AccountCurrencyInfo list" where
  "exchangeTotals exchangeData = foldl sumCurrency [] (accountCurrencies exchangeData)"

text \<open>Second loop, per summed currency of an exchange: the reconciliation with the ledger.\<close>

definition seedTotal ::
  "string \<Rightarrow> ('v::{zero,ord}) Base \<Rightarrow> 'v AccountCurrencyInfo \<Rightarrow> 'v Base" where
  "seedTotal exchangeName port t =
     (let currencyName = CurrencyName t; total = TotalValue t
      in if \<not> ExchangeAddressExists port exchangeName currencyName
         then (if total \<le> 0 then port
               else port @ [\<lparr>Address = exchangeName, CoinType = currencyName, Balance = total,
                              Description = PortfolioAddressExchange\<rparr>])
         else if total \<le> 0 then RemoveExchangeAddress port exchangeName currencyName
         else (case GetAddressBalance port exchangeName currencyName PortfolioAddressExchange of
                 None \<Rightarrow> port
               | Some balance \<Rightarrow>
                   if balance \<noteq> total
                   then UpdateExchangeAddressBalance port exchangeName currencyName total
                   else port))"

definition seedExchange :: "('v::{plus,zero,ord}) Base \<Rightarrow> 'v AccountInfo \<Rightarrow> 'v Base" where
  "seedExchange port exchangeData =
     foldl (seedTotal (Exchange exchangeData)) port (exchangeTotals exchangeData)"

definition SeedExchangeAccountInfo ::
  "('v::{plus,zero,ord}) AccountInfo list \<Rightarrow> 'v Base \<Rightarrow> 'v Base" where
  "SeedExchangeAccountInfo data port =
     (if length data = 0 then port else foldl seedExchange port data)"

text \<open>
  Whether the account data of one exchange lists a currency at all; the sum of the total
  values it lists for a currency, in a type whose addition is associative; and the same sum
  over all the elements of the account data that carry an exchange name.
\<close>

definition summedTotalValue :: "('v::monoid_add) AccountInfo \<Rightarrow> string \<Rightarrow> 'v" where
  "summedTotalValue exchangeData currencyName =
     sum_list (map TotalValue
       (filter (\<lambda>i. CurrencyName i = currencyName) (accountCurrencies exchangeData)))"

definition summedOverData :: "('v::monoid_add) AccountInfo list \<Rightarrow> string \<Rightarrow> string \<Rightarrow> 'v" where
  "summedOverData data exchangeName currencyName =
     sum_list (map (\<lambda>d. summedTotalValue d currencyName)
       (filter (\<lambda>d. Exchange d = exchangeName) data))"

definition listsCurrency :: "'v AccountInfo \<Rightarrow> string \<Rightarrow> bool" where
  "listsCurrency exchangeData currencyName =
     list_ex (\<lambda>i. CurrencyName i = currencyName) (accountCurrencies exchangeData)"

section \<open>The polling routines (engine/routines.go)\<close>

text \<open>
  One iteration of \<open>TickerUpdaterRoutine\<close> or \<open>OrderbookUpdaterRoutine\<close> starts one task per
  entry of \<open>Bot.Exchanges\<close>. A task runs sequentially; it is modelled by the list of the
  calls it makes, in order: the calls to the exchange, the summary printed for each result,
  and on success the staging of the result and, when the websocket server is enabled, its
  relay.
\<close>

datatype ('t, 'o) event =
    CallUpdateTicker string CurrencyPair AssetType
  | CallFetchTicker string CurrencyPair AssetType
  | CallUpdateOrderbook string CurrencyPair AssetType
  | PrintTickerSummary 't CurrencyPair AssetType string "error option"
  | PrintOrderbookSummary 'o CurrencyPair AssetType string "error option"
  | StageTickerData string AssetType 't
  | StageOrderbookData string AssetType 'o
  | RelayTicker 't AssetType string
  | RelayOrderbook 'o AssetType string

definition processTicker ::
  "bool \<Rightarrow> string \<Rightarrow> ('t, 'o) IBotExchange \<Rightarrow> bool \<Rightarrow> CurrencyPair \<Rightarrow> AssetType \<Rightarrow>
   ('t, 'o) event list" where
  "processTicker websocketServerEnabled exchangeName exch update c assetType =
     (let call = (if update then CallUpdateTicker (GetName exch) c assetType
                  else CallFetchTicker (GetName exch) c assetType);
          (result, err) = (if update then UpdateTicker exch c assetType
                           else FetchTicker exch c assetType)
      in [call, PrintTickerSummary result c assetType exchangeName err] @
         (if err = None
          then StageTickerData exchangeName assetType result #
               (if websocketServerEnabled then [RelayTicker result assetType exchangeName]
                else [])
          else []))"

fun tickerPairs ::
  "bool \<Rightarrow> string \<Rightarrow> ('t, 'o) IBotExchange \<Rightarrow> bool \<Rightarrow> AssetType \<Rightarrow> nat \<Rightarrow>
   CurrencyPair list \<Rightarrow> ('t, 'o) event list" where
  "tickerPairs ws exchangeName exch supportsBatching assetType z [] = []"
| "tickerPairs ws exchangeName exch supportsBatching assetType z (c # enabledCurrencies) =
     (if supportsBatching \<and> z > 0
      then processTicker ws exchangeName exch False c assetType
      else processTicker ws exchangeName exch True c assetType) @
     tickerPairs ws exchangeName exch supportsBatching assetType (Suc z) enabledCurrencies"

definition tickerTask :: "bool \<Rightarrow> ('t, 'o) IBotExchange option \<Rightarrow> ('t, 'o) event list" where
  "tickerTask ws x =
     (case x of
        None \<Rightarrow> []
      | Some exch \<Rightarrow>
          if \<not> SupportsREST exch then []
          else (let exchangeName = GetName exch;
                    supportsBatching = SupportsRESTTickerBatchUpdates exch;
                    assetTypes = GetAssetTypes exch
                in concat (map (\<lambda>assetType.
                       tickerPairs ws exchangeName exch supportsBatching assetType 0
                         (GetEnabledPairs exch assetType)) assetTypes)))"

definition processOrderbook ::
  "bool \<Rightarrow> string \<Rightarrow> ('t, 'o) IBotExchange \<Rightarrow> CurrencyPair \<Rightarrow> AssetType \<Rightarrow>
   ('t, 'o) event list" where
  "processOrderbook websocketServerEnabled exchangeName exch c assetType =
     (let (result, err) = UpdateOrderbook exch c assetType
      in [CallUpdateOrderbook (GetName exch) c assetType,
          PrintOrderbookSummary result c assetType exchangeName err] @
         (if err = None
          then StageOrderbookData exchangeName assetType result #
               (if websocketServerEnabled then [RelayOrderbook result assetType exchangeName]
                else [])
          else []))"

definition orderbookTask :: "bool \<Rightarrow> ('t, 'o) IBotExchange option \<Rightarrow> ('t, 'o) event list" where
  "orderbookTask ws x =
     (case x of
        None \<Rightarrow> []
      | Some exch \<Rightarrow>
          if \<not> SupportsREST exch then []
          else (let exchangeName = GetName exch;
                    assetTypes = GetAssetTypes exch
                in concat (map (\<lambda>assetType.
                       concat (map (\<lambda>c. processOrderbook ws exchangeName exch c assetType)
                         (GetEnabledPairs exch assetType))) assetTypes)))"

text \<open>
  One polling iteration: the tasks of all registry entries. The tasks run concurrently and
  share nothing in this model, so the iteration is the list of their traces.
\<close>

definition tickerIteration ::
  "bool \<Rightarrow> ('t, 'o) IBotExchange option list \<Rightarrow> ('t, 'o) event list list" where
  "tickerIteration ws exchanges = map (tickerTask ws) exchanges"

definition orderbookIteration ::
  "bool \<Rightarrow> ('t, 'o) IBotExchange option list \<Rightarrow> ('t, 'o) event list list" where
  "orderbookIteration ws exchanges = map (orderbookTask ws) exchanges"

text \<open>The exchange calls of a trace that fetch from the exchange.\<close>

fun isFetch :: "('t, 'o) event \<Rightarrow> bool" where
  "isFetch (CallUpdateTicker n c a) = True"
| "isFetch (CallFetchTicker n c a) = True"
| "isFetch (CallUpdateOrderbook n c a) = True"
| "isFetch e = False"

definition fetches :: "('t, 'o) event list \<Rightarrow> ('t, 'o) event list" where
  "fetches trace = filter isFetch trace"

section \<open>Auxiliary notions for the properties\<close>

text \<open>The currency entries of a given name, in the order of the input.\<close>

definition namedEntries ::
  "string \<Rightarrow> 'v AccountCurrencyInfo list \<Rightarrow> 'v AccountCurrencyInfo list" where
  "namedEntries c infos = filter (\<lambda>i. CurrencyName i = c) infos"

text \<open>The number of ledger entries of an exchange and currency.\<close>

definition entryCount :: "'v Base \<Rightarrow> string \<Rightarrow> string \<Rightarrow> nat" where
  "entryCount port exchangeName coinType =
     length (filter (isExchangeAddress exchangeName coinType) port)"

text \<open>
  The ledger agrees with a fetched total \<open>b\<close> of an exchange and currency: it has an entry,
  the total is positive and equals the stored balance.
\<close>

definition inAgreement :: "('v::{zero,preorder}) Base \<Rightarrow> string \<Rightarrow> string \<Rightarrow> 'v \<Rightarrow> bool" where
  "inAgreement port e c b =
     (ExchangeAddressExists port e c \<and> 0 < b \<and>
      GetAddressBalance port e c PortfolioAddressExchange = Some b)"

section \<open>Example inputs\<close>

definition btcusd :: CurrencyPair where
  "btcusd = \<lparr>Delimiter = ''-'', FirstCurrency = ''BTC'', SecondCurrency = ''USD''\<rparr>"

definition ltcusd :: CurrencyPair where
  "ltcusd = \<lparr>Delimiter = ''-'', FirstCurrency = ''LTC'', SecondCurrency = ''USD''\<rparr>"

text \<open>
  An exchange with two enabled pairs per asset type that answers every ticker call with
  the price 1, every order book call with the depth 2, and no error.
\<close>

definition exchangeWith ::
  "string \<Rightarrow> bool \<Rightarrow> bool \<Rightarrow> bool \<Rightarrow> AssetType list \<Rightarrow> (nat, nat) IBotExchange" where
  "exchangeWith name enabled rest batching assetTypes =
     \<lparr>GetName = name, IsEnabled = enabled, SupportsREST = rest,
      SupportsRESTTickerBatchUpdates = batching, GetAssetTypes = assetTypes,
      GetEnabledPairs = (\<lambda>a. [btcusd, ltcusd]),
      FetchTicker = (\<lambda>c a. (1, None)), UpdateTicker = (\<lambda>c a. (1, None)),
      FetchOrderbook = (\<lambda>c a. (2, None)), UpdateOrderbook = (\<lambda>c a. (2, None))\<rparr>"

text \<open>
  Three configured exchanges with a global pair format. The second has no currency pairs
  at all, so its fetch returns an error; the third lists USD_BTC, which equals the BTC-USD
  of the first under either-order equality. None of them has a Futures pair store.
\<close>

definition exampleConfig :: "nat ExchangeConfig list" where
  "exampleConfig =
     [\<lparr>Name = ''ANX'', Enabled = True,
       CurrencyPairs = Some
         \<lparr>UseGlobalPairFormat = True, ConfigFormat = Some 0,
          Spot = Some \<lparr>Available = ''BTC-USD,LTC-USD'', ConfigFormat = None\<rparr>,
          Futures = None\<rparr>\<rparr>,
      \<lparr>Name = ''Bitflyer'', Enabled = False, CurrencyPairs = None\<rparr>,
      \<lparr>Name = ''Gemini'', Enabled = True,
       CurrencyPairs = Some
         \<lparr>UseGlobalPairFormat = True, ConfigFormat = Some 0,
          Spot = Some \<lparr>Available = ''USD_BTC,ETHUSD'', ConfigFormat = None\<rparr>,
          Futures = None\<rparr>\<rparr>]"

definition exampleFormatPairs :: "string \<Rightarrow> nat \<Rightarrow> CurrencyPair list" where
  "exampleFormatPairs available fmt =
     (if available = ''BTC-USD,LTC-USD'' then [btcusd, ltcusd]
      else if available = ''USD_BTC,ETHUSD''
      then [\<lparr>Delimiter = ''_'', FirstCurrency = ''USD'', SecondCurrency = ''BTC''\<rparr>,
            NewCurrencyPair ''ETH'' ''USD'']
      else [])"

text \<open>
  Account data of two exchanges and a ledger. On Bitfinex the BTC total is 0 and the LTC
  total is 3 + 2 = 5, the balance the ledger stores for LTC.
\<close>

definition bitfinexAccounts :: "real AccountInfo" where
  "bitfinexAccounts =
     \<lparr>Exchange = ''Bitfinex'',
      Accounts =
        [\<lparr>ID = ''1'', Currencies =
            [\<lparr>CurrencyName = ''BTC'', TotalValue = 0, Hold = 0\<rparr>,
             \<lparr>CurrencyName = ''LTC'', TotalValue = 3, Hold = 0\<rparr>]\<rparr>,
         \<lparr>ID = ''2'', Currencies =
            [\<lparr>CurrencyName = ''LTC'', TotalValue = 2, Hold = 1\<rparr>]\<rparr>]\<rparr>"

definition krakenAccounts :: "real AccountInfo" where
  "krakenAccounts =
     \<lparr>Exchange = ''Kraken'',
      Accounts =
        [\<lparr>ID = ''1'', Currencies =
            [\<lparr>CurrencyName = ''BTC'', TotalValue = 4, Hold = 1\<rparr>]\<rparr>]\<rparr>"

text \<open>Account data with two elements of one exchange, whose BTC totals are -5 and 5.\<close>

definition splitAccounts :: "real AccountInfo list" where
  "splitAccounts =
     [\<lparr>Exchange = ''Bitfinex'',
       Accounts = [\<lparr>ID = ''1'', Currencies =
          [\<lparr>CurrencyName = ''BTC'', TotalValue = - 5, Hold = 0\<rparr>]\<rparr>]\<rparr>,
      \<lparr>Exchange = ''Bitfinex'',
       Accounts = [\<lparr>ID = ''2'', Currencies =
          [\<lparr>CurrencyName = ''BTC'', TotalValue = 5, Hold = 0\<rparr>]\<rparr>]\<rparr>]"

definition exampleLedger :: "real Base" where
  "exampleLedger =
     [\<lparr>Address = ''Bitfinex'', CoinType = ''BTC'', Balance = 2,
       Description = PortfolioAddressExchange\<rparr>,
      \<lparr>Address = ''Bitfinex'', CoinType = ''LTC'', Balance = 5,
       Description = PortfolioAddressExchange\<rparr>]"

section \<open>Properties of the relatable pairs\<close>

lemma Contains_addPair:
  "Contains (addPair pairs p) q True = (Contains pairs q True \<or> Equal p q True)"
  by (auto simp: addPair_def Contains_def list_ex_iff Equal_def)

text \<open>
  What one run of the closure \<open>buildPairs\<close> adds, up to strict equality: the pair itself when
  asked for, and the three pairs obtained by translating the first, both, or the second
  currency.
\<close>

lemma Contains_buildPairs:
  "Contains (buildPairs tr pairs p incOrig) q True =
     (Contains pairs q True \<or> (incOrig \<and> Equal p q True)
      \<or> (\<exists>f. tr (FirstCurrency p) = Inr f \<and> FirstCurrency q = f
              \<and> SecondCurrency q = SecondCurrency p)
      \<or> (\<exists>f s. tr (FirstCurrency p) = Inr f \<and> tr (SecondCurrency p) = Inr s
              \<and> FirstCurrency q = f \<and> SecondCurrency q = s)
      \<or> (\<exists>s. tr (SecondCurrency p) = Inr s \<and> FirstCurrency q = FirstCurrency p
              \<and> SecondCurrency q = s))"
  by (auto simp: buildPairs_def Let_def Contains_addPair Equal_def NewCurrencyPair_def
      split: sum.splits)

lemma Contains_RemovePairsByFilter:
  "Contains (RemovePairsByFilter pairs flt) q True =
     (Contains pairs q True \<and> \<not> ContainsCurrency q flt)"
  by (auto simp: RemovePairsByFilter_def Contains_def list_ex_iff Equal_def ContainsCurrency_def)

lemma RemovePairsByFilter_none:
  "list_all (\<lambda>q. \<not> ContainsCurrency q flt) (RemovePairsByFilter pairs flt)"
  by (simp add: RemovePairsByFilter_def list_all_iff)

text \<open>
  Claim C2, as amended. For every pair \<open>P\<close> and every translation lookup, the list returned by
  \<open>GetRelatableCurrencies(P, false, false)\<close> contains no pair with USDT as either of its
  currencies. It contains (a pair strictly equal to) \<open>P\<close> exactly when \<open>P\<close> has no USDT
  currency and either one of the currencies of \<open>P\<close> translates to itself or the two
  currencies of \<open>P\<close> translate to each other; for every other \<open>P\<close> the result excludes \<open>P\<close>.
\<close>

theorem GetRelatableCurrencies_without_original:
  "list_all (\<lambda>q. \<not> ContainsCurrency q ''USDT'') (GetRelatableCurrencies tr P False False) \<and>
   (Contains (GetRelatableCurrencies tr P False False) P True \<longleftrightarrow>
      \<not> ContainsCurrency P ''USDT'' \<and>
      (tr (FirstCurrency P) = Inr (FirstCurrency P) \<or>
       tr (SecondCurrency P) = Inr (SecondCurrency P) \<or>
       (tr (FirstCurrency P) = Inr (SecondCurrency P) \<and>
        tr (SecondCurrency P) = Inr (FirstCurrency P))))"
proof
  show "list_all (\<lambda>q. \<not> ContainsCurrency q ''USDT'') (GetRelatableCurrencies tr P False False)"
    by (simp add: GetRelatableCurrencies_def Let_def RemovePairsByFilter_none)
next
  have empty: "\<not> Contains [] P True"
    by (simp add: Contains_def)
  show "Contains (GetRelatableCurrencies tr P False False) P True \<longleftrightarrow>
      \<not> ContainsCurrency P ''USDT'' \<and>
      (tr (FirstCurrency P) = Inr (FirstCurrency P) \<or>
       tr (SecondCurrency P) = Inr (SecondCurrency P) \<or>
       (tr (FirstCurrency P) = Inr (SecondCurrency P) \<and>
        tr (SecondCurrency P) = Inr (FirstCurrency P)))"
    unfolding GetRelatableCurrencies_def Let_def
    by (auto simp: Contains_RemovePairsByFilter Contains_buildPairs empty Swap_def)
qed

text \<open>The amended claim at BTC/USD: no USDT pair in the result, and BTC/USD is excluded.\<close>

theorem GetRelatableCurrencies_without_original_witness:
  "list_all (\<lambda>q. \<not> ContainsCurrency q ''USDT'')
     (GetRelatableCurrencies GetTranslation (NewCurrencyPair ''BTC'' ''USD'') False False) \<and>
   \<not> Contains (GetRelatableCurrencies GetTranslation (NewCurrencyPair ''BTC'' ''USD'') False False)
       (NewCurrencyPair ''BTC'' ''USD'') True"
  using GetRelatableCurrencies_without_original [of GetTranslation "NewCurrencyPair ''BTC'' ''USD''"]
  by (simp add: NewCurrencyPair_def GetTranslation_def translationTable_def)

text \<open>
  Claim C2 as stated fails at the pair BTC/XBT: BTC translates to XBT and XBT to BTC, so the
  run on the swapped pair XBT/BTC adds the translation of both currencies, which is BTC/XBT.
\<close>

theorem GetRelatableCurrencies_contains_original_counterexample:
  "NewCurrencyPair ''BTC'' ''XBT'' \<in>
     set (GetRelatableCurrencies GetTranslation (NewCurrencyPair ''BTC'' ''XBT'') False False)"
  by (simp add: GetRelatableCurrencies_def buildPairs_def addPair_def Contains_def Equal_def
      RemovePairsByFilter_def ContainsCurrency_def Swap_def
      NewCurrencyPair_def GetTranslation_def translationTable_def)

text \<open>
  Claim C9. For every pair \<open>P\<close> whose two currencies differ (and, when \<open>incUSDT\<close> is false,
  neither of them is USDT), \<open>GetRelatableCurrencies(P, true, incUSDT)\<close> contains both \<open>P\<close>
  and the swapped pair, which are different under strict-order equality.
\<close>

theorem GetRelatableCurrencies_both_orientations:
  assumes "FirstCurrency P \<noteq> SecondCurrency P"
    and "\<not> incUSDT \<longrightarrow> FirstCurrency P \<noteq> ''USDT'' \<and> SecondCurrency P \<noteq> ''USDT''"
  shows "Contains (GetRelatableCurrencies tr P True incUSDT) P True \<and>
         Contains (GetRelatableCurrencies tr P True incUSDT) (Swap P) True \<and>
         \<not> Equal P (Swap P) True"
  using assms unfolding GetRelatableCurrencies_def Let_def
  by (auto simp: Contains_RemovePairsByFilter Contains_buildPairs Swap_def Equal_def
      ContainsCurrency_def)

theorem GetRelatableCurrencies_both_orientations_witness:
  "FirstCurrency (NewCurrencyPair ''BTC'' ''LTC'') \<noteq> SecondCurrency (NewCurrencyPair ''BTC'' ''LTC'') \<and>
   FirstCurrency (NewCurrencyPair ''BTC'' ''LTC'') \<noteq> ''USDT'' \<and>
   SecondCurrency (NewCurrencyPair ''BTC'' ''LTC'') \<noteq> ''USDT'' \<and>
   Contains (GetRelatableCurrencies GetTranslation (NewCurrencyPair ''BTC'' ''LTC'') True False)
     (NewCurrencyPair ''BTC'' ''LTC'') True \<and>
   Contains (GetRelatableCurrencies GetTranslation (NewCurrencyPair ''BTC'' ''LTC'') True False)
     (Swap (NewCurrencyPair ''BTC'' ''LTC'')) True"
  using GetRelatableCurrencies_both_orientations
          [of "NewCurrencyPair ''BTC'' ''LTC''" False GetTranslation]
  by (simp add: NewCurrencyPair_def)

section \<open>Properties of the available pairs\<close>

lemma Equal_either_order_sym: "Equal x y False = Equal y x False"
  by (auto simp: Equal_def)

lemma noDuplicatePairs_snoc:
  "noDuplicatePairs (xs @ [y]) = (noDuplicatePairs xs \<and> \<not> Contains xs y False)"
proof (induction xs)
  case Nil
  then show ?case by (simp add: Contains_def)
next
  case (Cons x xs)
  have "Equal y x False = Equal x y False"
    by (rule Equal_either_order_sym)
  with Cons show ?case
    by (auto simp: Contains_def)
qed

text \<open>
  \<open>noDuplicatePairs\<close> says what it should: entries at different positions are never equal
  under either-order equality.
\<close>

lemma noDuplicatePairs_nth:
  "noDuplicatePairs ps \<Longrightarrow> i < length ps \<Longrightarrow> j < length ps \<Longrightarrow> i \<noteq> j \<Longrightarrow>
   \<not> Equal (ps ! i) (ps ! j) False"
proof (induction ps arbitrary: i j)
  case Nil
  then show ?case by simp
next
  case (Cons p ps)
  have notin: "\<forall>x \<in> set ps. \<not> Equal x p False"
    using Cons.prems(1) by (simp add: Contains_def list_ex_iff)
  show ?case
  proof (cases i)
    case 0
    then obtain j' where j: "j = Suc j'" "j' < length ps"
      using Cons.prems by (cases j) auto
    then have "\<not> Equal (ps ! j') p False"
      using notin by simp
    then show ?thesis
      using 0 j by (simp add: Equal_either_order_sym [of p])
  next
    case (Suc i')
    show ?thesis
    proof (cases j)
      case 0
      have "\<not> Equal (ps ! i') p False"
        using notin Suc Cons.prems(2) by simp
      then show ?thesis using 0 Suc by simp
    next
      case (Suc j')
      then show ?thesis
        using Cons \<open>i = Suc i'\<close> by simp
    qed
  qed
qed

lemma noDuplicatePairs_appendAvailable:
  "noDuplicatePairs pairList \<Longrightarrow> noDuplicatePairs (appendAvailable pairList pairs)"
  by (induction pairList pairs rule: appendAvailable.induct)
    (simp_all add: noDuplicatePairs_snoc)

lemma noDuplicatePairs_availableLoop:
  "noDuplicatePairs pairList \<Longrightarrow>
   availableLoop lower formatPairs c enabledOnly assetType pairList xs = Return ps \<Longrightarrow>
   noDuplicatePairs ps"
proof (induction xs arbitrary: pairList)
  case Nil
  then show ?case by simp
next
  case (Cons x xs)
  show ?case
  proof (cases "enabledOnly \<and> \<not> Enabled x")
    case True
    then show ?thesis using Cons by auto
  next
    case False
    show ?thesis
    proof (cases "GetAvailablePairs lower formatPairs c (Name x) assetType")
      case Panic
      then show ?thesis using Cons.prems False by simp
    next
      case (Return r)
      show ?thesis
      proof (cases r)
        case (Inl err)
        then show ?thesis using Cons Return False by auto
      next
        case (Inr pairs)
        have "noDuplicatePairs (appendAvailable pairList pairs)"
          using Cons.prems(1) by (rule noDuplicatePairs_appendAvailable)
        moreover have "availableLoop lower formatPairs c enabledOnly assetType
            (appendAvailable pairList pairs) xs = Return ps"
          using Cons.prems(2) Return Inr False by auto
        ultimately show ?thesis by (rule Cons.IH)
      qed
    qed
  qed
qed

text \<open>
  The half of claim C5 that the code keeps: whenever \<open>GetAllAvailablePairs\<close> returns, the
  list it returns contains no two pairs that are equal under either-order equality.
\<close>

lemma GetAllAvailablePairs_returns_no_duplicates:
  "GetAllAvailablePairs lower formatPairs c enabledOnly assetType = Return ps \<Longrightarrow>
   noDuplicatePairs ps"
  unfolding GetAllAvailablePairs_def
  using noDuplicatePairs_availableLoop [of "[]"] by simp

text \<open>An exchange whose fetch returns an error contributes nothing.\<close>

lemma availableLoop_skips_errors:
  "availableLoop lower formatPairs c enabledOnly assetType pairList xs =
   availableLoop lower formatPairs c enabledOnly assetType pairList
     (filter (\<lambda>x. \<forall>err. GetAvailablePairs lower formatPairs c (Name x) assetType \<noteq>
                      Return (Inl err)) xs)"
  by (induction xs arbitrary: pairList) (auto split: run.splits sum.splits)

text \<open>The call returns when no fetch of a visited exchange panics.\<close>

lemma availableLoop_returns:
  "\<forall>x \<in> set xs. \<not> (enabledOnly \<and> \<not> Enabled x) \<longrightarrow>
      GetAvailablePairs lower formatPairs c (Name x) assetType \<noteq> Panic \<Longrightarrow>
   \<exists>ps. availableLoop lower formatPairs c enabledOnly assetType pairList xs = Return ps"
  by (induction xs arbitrary: pairList) (auto split: run.splits sum.splits)

text \<open>
  On the example configuration and the Spot asset type the exchange without currency pairs
  is skipped and USD_BTC of the third exchange is recognised as a duplicate of BTC-USD.
\<close>

lemma GetAllAvailablePairs_example:
  "GetAllAvailablePairs (\<lambda>s. s) exampleFormatPairs exampleConfig False AssetTypeSpot =
     Return [btcusd, ltcusd, NewCurrencyPair ''ETH'' ''USD'']"
  by (simp add: GetAllAvailablePairs_def GetAvailablePairs_def GetPairFormat_def
      exampleConfig_def exampleFormatPairs_def AssetTypeSpot_def
      Contains_def Equal_def btcusd_def ltcusd_def NewCurrencyPair_def)

text \<open>
  Claim C5 says that for every configuration and asset type \<open>GetAllAvailablePairs\<close> returns
  a list and never fails as a whole. The code at this input: the example configuration,
  whose exchanges have a Spot pair store only, and the asset type Futures. The fetch of the
  first exchange dereferences the nil Futures store, and the call panics.
\<close>

theorem GetAllAvailablePairs_panics_without_pair_store:
  "GetAvailablePairs (\<lambda>s. s) exampleFormatPairs exampleConfig ''ANX'' AssetTypeFutures = Panic \<and>
   GetAllAvailablePairs (\<lambda>s. s) exampleFormatPairs exampleConfig False AssetTypeFutures = Panic"
  by (simp add: GetAllAvailablePairs_def GetAvailablePairs_def GetPairFormat_def
      exampleConfig_def AssetTypeSpot_def AssetTypeFutures_def)

section \<open>Properties of the collated account information\<close>

text \<open>
  The value of the collated map at a currency name, when addition is associative: absent
  when no entry has the name, otherwise the sums of the entries of that name.
\<close>

lemma foldl_collateEntry:
  fixes m :: "string \<rightharpoonup> ('v::monoid_add) AccountCurrencyInfo"
  shows "foldl collateEntry m infos c =
     (case m c of
        None \<Rightarrow>
          (if namedEntries c infos = [] then None
           else Some \<lparr>CurrencyName = c,
                      TotalValue = sum_list (map TotalValue (namedEntries c infos)),
                      Hold = sum_list (map Hold (namedEntries c infos))\<rparr>)
      | Some info \<Rightarrow>
          Some (info\<lparr>Hold := Hold info + sum_list (map Hold (namedEntries c infos)),
                     TotalValue :=
                       TotalValue info + sum_list (map TotalValue (namedEntries c infos))\<rparr>))"
proof (induction infos arbitrary: m)
  case Nil
  then show ?case by (simp add: namedEntries_def split: option.splits)
next
  case (Cons i infos)
  show ?case
    by (simp add: Cons.IH)
      (auto simp: collateEntry_def Let_def namedEntries_def add.assoc split: option.splits)
qed

lemma GetCollatedExchangeAccountInfoByCoin_value:
  fixes xs :: "('v::monoid_add) AccountInfo list"
  shows "GetCollatedExchangeAccountInfoByCoin xs c =
     (if namedEntries c (concat (map accountCurrencies xs)) = [] then None
      else Some \<lparr>CurrencyName = c,
                 TotalValue = sum_list (map TotalValue
                   (namedEntries c (concat (map accountCurrencies xs)))),
                 Hold = sum_list (map Hold
                   (namedEntries c (concat (map accountCurrencies xs))))\<rparr>)"
  by (simp add: GetCollatedExchangeAccountInfoByCoin_def foldl_collateEntry)

lemma mset_concat_map_cong:
  assumes "mset xs = mset ys"
  shows "mset (concat (map f xs)) = mset (concat (map f ys))"
proof -
  have flat: "mset (concat (map f zs)) = sum_mset (image_mset (\<lambda>x. mset (f x)) (mset zs))"
    for zs
    by (induction zs) simp_all
  show ?thesis
    by (simp only: flat assms)
qed

lemma namedEntries_perm:
  assumes "mset as = mset bs"
  shows "mset (namedEntries c as) = mset (namedEntries c bs)"
  unfolding namedEntries_def mset_filter using assms by simp

lemma sum_list_perm:
  fixes f :: "'a \<Rightarrow> 'v::comm_monoid_add"
  assumes "mset as = mset bs"
  shows "sum_list (map f as) = sum_list (map f bs)"
proof -
  have "sum_list (map f as) = sum_mset (image_mset f (mset as))"
    by (metis mset_map sum_mset_sum_list)
  also have "\<dots> = sum_mset (image_mset f (mset bs))"
    using assms by simp
  also have "\<dots> = sum_list (map f bs)"
    by (metis mset_map sum_mset_sum_list)
  finally show ?thesis .
qed

text \<open>
  Claim C7. \<open>GetCollatedExchangeAccountInfoByCoin\<close> is order-independent over exact
  arithmetic: for every input list of exchange account infos and every permutation of it
  the resulting maps are equal, so they have the same currency names as keys and, for each
  key, the same summed TotalValue and Hold.
\<close>

theorem GetCollatedExchangeAccountInfoByCoin_order_independent:
  fixes xs ys :: "real AccountInfo list"
  assumes "mset xs = mset ys"
  shows "GetCollatedExchangeAccountInfoByCoin xs = GetCollatedExchangeAccountInfoByCoin ys"
proof
  fix c
  let ?as = "concat (map accountCurrencies xs)" and ?bs = "concat (map accountCurrencies ys)"
  have flat: "mset ?as = mset ?bs"
    using assms by (rule mset_concat_map_cong)
  have named: "mset (namedEntries c ?as) = mset (namedEntries c ?bs)"
    using flat by (rule namedEntries_perm)
  have empty: "(namedEntries c ?as = []) = (namedEntries c ?bs = [])"
    using named by (metis mset_zero_iff)
  have tot: "sum_list (map TotalValue (namedEntries c ?as)) =
             sum_list (map TotalValue (namedEntries c ?bs))"
    using named by (rule sum_list_perm)
  have hold: "sum_list (map Hold (namedEntries c ?as)) =
              sum_list (map Hold (namedEntries c ?bs))"
    using named by (rule sum_list_perm)
  show "GetCollatedExchangeAccountInfoByCoin xs c = GetCollatedExchangeAccountInfoByCoin ys c"
    by (simp only: GetCollatedExchangeAccountInfoByCoin_value empty tot hold)
qed

theorem GetCollatedExchangeAccountInfoByCoin_order_independent_witness:
  "mset [bitfinexAccounts, krakenAccounts] = mset [krakenAccounts, bitfinexAccounts] \<and>
   GetCollatedExchangeAccountInfoByCoin [bitfinexAccounts, krakenAccounts] =
   GetCollatedExchangeAccountInfoByCoin [krakenAccounts, bitfinexAccounts]"
proof -
  have perm: "mset [bitfinexAccounts, krakenAccounts] = mset [krakenAccounts, bitfinexAccounts]"
    by (simp add: add_mset_commute)
  show ?thesis
    using perm GetCollatedExchangeAccountInfoByCoin_order_independent [OF perm] by simp
qed

section \<open>Properties of the ledger seeding\<close>

subsection \<open>The totals of one exchange\<close>

lemma addToCurrencies_eq:
  "addToCurrencies info cs =
     (map (\<lambda>c. if CurrencyName info = CurrencyName c
                then c\<lparr>Hold := Hold c + Hold info, TotalValue := TotalValue c + TotalValue info\<rparr>
                else c) cs,
      list_ex (\<lambda>c. CurrencyName info = CurrencyName c) cs)"
  by (induction cs) auto

lemma sumCurrency_eq:
  "sumCurrency cs info =
     (if CurrencyName info \<in> CurrencyName ` set cs
      then map (\<lambda>c. if CurrencyName info = CurrencyName c
                then c\<lparr>Hold := Hold c + Hold info, TotalValue := TotalValue c + TotalValue info\<rparr>
                else c) cs
      else cs @ [\<lparr>CurrencyName = CurrencyName info, TotalValue = TotalValue info,
                  Hold = Hold info\<rparr>])"
proof -
  have "(\<lambda>c. if CurrencyName info = CurrencyName c then c else c) = (\<lambda>c. c)"
    by auto
  then show ?thesis
    by (auto simp: sumCurrency_def addToCurrencies_eq list_ex_iff map_idI)
qed

lemma map_update_names:
  "map CurrencyName (map (\<lambda>c. if n = CurrencyName c
                then c\<lparr>Hold := Hold c + h, TotalValue := TotalValue c + v\<rparr>
                else c) cs) = map CurrencyName cs"
  by (induction cs) auto

lemma sumCurrency_names:
  "map CurrencyName (sumCurrency cs info) =
     (if CurrencyName info \<in> CurrencyName ` set cs then map CurrencyName cs
      else map CurrencyName cs @ [CurrencyName info])"
  by (simp add: sumCurrency_eq map_update_names)

text \<open>
  The first loop yields one entry per currency name listed in the account data, whatever
  the addition does.
\<close>

lemma foldl_sumCurrency_names:
  "distinct (map CurrencyName (foldl sumCurrency [] infos)) \<and>
   CurrencyName ` set (foldl sumCurrency [] infos) = CurrencyName ` set infos"
proof (induction infos rule: rev_induct)
  case Nil
  then show ?case by simp
next
  case (snoc i infos)
  let ?cs = "foldl sumCurrency [] infos"
  have names: "set (map CurrencyName (sumCurrency ?cs i)) =
               insert (CurrencyName i) (CurrencyName ` set ?cs)"
    by (auto simp: sumCurrency_names)
  have "distinct (map CurrencyName (sumCurrency ?cs i))"
    using snoc by (simp add: sumCurrency_names)
  moreover have "CurrencyName ` set (sumCurrency ?cs i) = CurrencyName ` set (infos @ [i])"
    using names snoc by simp
  ultimately show ?case by simp
qed

lemma exchangeTotals_distinct: "distinct (map CurrencyName (exchangeTotals d))"
  using foldl_sumCurrency_names [of "accountCurrencies d"] by (simp add: exchangeTotals_def)

lemma exchangeTotals_names:
  "(c \<in> CurrencyName ` set (exchangeTotals d)) = listsCurrency d c"
  using foldl_sumCurrency_names [of "accountCurrencies d"]
  by (auto simp: exchangeTotals_def listsCurrency_def list_ex_iff)

text \<open>
  When the addition is associative with unit 0, as the exact one is, the entry of a
  currency holds the sum of the total values listed under its name. The rounding addition
  of float64 is not associative, and the properties below do not use this fact.
\<close>

lemma foldl_sumCurrency_value:
  fixes infos :: "('v::monoid_add) AccountCurrencyInfo list"
  shows "\<forall>t \<in> set (foldl sumCurrency [] infos).
      TotalValue t = sum_list (map TotalValue (namedEntries (CurrencyName t) infos))"
proof (induction infos rule: rev_induct)
  case Nil
  then show ?case by simp
next
  case (snoc i infos)
  let ?cs = "foldl sumCurrency [] infos"
  let ?upd = "\<lambda>c. if CurrencyName i = CurrencyName c
                then c\<lparr>Hold := Hold c + Hold i, TotalValue := TotalValue c + TotalValue i\<rparr>
                else c"
  have names: "CurrencyName ` set ?cs = CurrencyName ` set infos"
    using foldl_sumCurrency_names [of infos] by blast
  have IH: "\<forall>t \<in> set ?cs.
      TotalValue t = sum_list (map TotalValue (namedEntries (CurrencyName t) infos))"
    by (rule snoc.IH)
  show ?case
  proof (cases "CurrencyName i \<in> CurrencyName ` set ?cs")
    case True
    then have eq: "foldl sumCurrency [] (infos @ [i]) = map ?upd ?cs"
      by (simp add: sumCurrency_eq)
    have "\<forall>t \<in> set (map ?upd ?cs).
      TotalValue t = sum_list (map TotalValue (namedEntries (CurrencyName t) (infos @ [i])))"
      using IH by (auto simp: namedEntries_def)
    then show ?thesis unfolding eq .
  next
    case False
    then have eq: "foldl sumCurrency [] (infos @ [i]) =
      ?cs @ [\<lparr>CurrencyName = CurrencyName i, TotalValue = TotalValue i, Hold = Hold i\<rparr>]"
      by (simp add: sumCurrency_eq)
    have "CurrencyName i \<notin> CurrencyName ` set infos"
      using False names by simp
    then have "\<forall>x \<in> set infos. CurrencyName x \<noteq> CurrencyName i"
      by (metis imageI)
    then have none: "namedEntries (CurrencyName i) infos = []"
      by (simp add: namedEntries_def filter_empty_conv)
    have other: "\<forall>t \<in> set ?cs. CurrencyName t \<noteq> CurrencyName i"
      using False by (metis imageI)
    have "\<forall>t \<in> set (?cs @
        [\<lparr>CurrencyName = CurrencyName i, TotalValue = TotalValue i, Hold = Hold i\<rparr>]).
      TotalValue t = sum_list (map TotalValue (namedEntries (CurrencyName t) (infos @ [i])))"
      using IH none other by (auto simp: namedEntries_def)
    then show ?thesis unfolding eq .
  qed
qed

lemma exchangeTotals_value:
  fixes d :: "('v::monoid_add) AccountInfo"
  shows "t \<in> set (exchangeTotals d) \<Longrightarrow> TotalValue t = summedTotalValue d (CurrencyName t)"
  using foldl_sumCurrency_value [of "accountCurrencies d"]
  by (simp add: exchangeTotals_def summedTotalValue_def namedEntries_def)

subsection \<open>The entries of one exchange and currency\<close>

lemma ExchangeAddressExists_entries:
  "ExchangeAddressExists port e c = (filter (isExchangeAddress e c) port \<noteq> [])"
  by (auto simp: ExchangeAddressExists_def list_ex_iff filter_empty_conv)

lemma ExchangeAddressExists_count:
  "ExchangeAddressExists port e c = (0 < entryCount port e c)"
  by (simp add: ExchangeAddressExists_entries entryCount_def)

lemma GetAddressBalance_entries:
  "GetAddressBalance port e c description =
   GetAddressBalance (filter (isExchangeAddress e c) port) e c description"
  by (induction port) (auto simp: isExchangeAddress_def)

lemma entryCount_Remove_same:
  "entryCount (RemoveExchangeAddress port e c) e c = entryCount port e c - 1"
  by (induction port) (auto simp: entryCount_def)

lemma entries_Remove_other:
  "e' \<noteq> e \<or> c' \<noteq> c \<Longrightarrow>
   filter (isExchangeAddress e c) (RemoveExchangeAddress port e' c') =
   filter (isExchangeAddress e c) port"
  by (induction port) (auto simp: isExchangeAddress_def)

lemma entries_Update_other:
  "e' \<noteq> e \<or> c' \<noteq> c \<Longrightarrow>
   filter (isExchangeAddress e c) (UpdateExchangeAddressBalance port e' c' b) =
   filter (isExchangeAddress e c) port"
  by (induction port) (auto simp: UpdateExchangeAddressBalance_def isExchangeAddress_def)

text \<open>A step for another exchange or currency leaves the entries of \<open>(e, c)\<close> alone.\<close>

lemma seedTotal_other_entries:
  "e' \<noteq> e \<or> CurrencyName t \<noteq> c \<Longrightarrow>
   filter (isExchangeAddress e c) (seedTotal e' port t) = filter (isExchangeAddress e c) port"
  by (auto simp: seedTotal_def Let_def entries_Remove_other entries_Update_other
      split: option.splits)
    (auto simp: isExchangeAddress_def)

lemma seedTotal_other:
  "e' \<noteq> e \<or> CurrencyName t \<noteq> c \<Longrightarrow>
   entryCount (seedTotal e' port t) e c = entryCount port e c"
  by (simp only: entryCount_def seedTotal_other_entries)

lemma seedTotal_nonpositive:
  "TotalValue t \<le> 0 \<Longrightarrow>
   entryCount (seedTotal e port t) e (CurrencyName t) = entryCount port e (CurrencyName t) - 1"
  by (simp add: seedTotal_def Let_def entryCount_Remove_same ExchangeAddressExists_count)

subsection \<open>Removal of an entry whose total is zero or below\<close>

lemma foldl_seedTotal_other:
  "e' \<noteq> e \<or> c \<notin> CurrencyName ` set ts \<Longrightarrow>
   entryCount (foldl (seedTotal e') port ts) e c = entryCount port e c"
  by (induction ts arbitrary: port) (auto simp: seedTotal_other)

lemma foldl_seedTotal_nonpositive:
  "distinct (map CurrencyName ts) \<Longrightarrow> t \<in> set ts \<Longrightarrow> TotalValue t \<le> 0 \<Longrightarrow>
   entryCount (foldl (seedTotal e) port ts) e (CurrencyName t) =
   entryCount port e (CurrencyName t) - 1"
proof (induction ts arbitrary: port)
  case Nil
  then show ?case by simp
next
  case (Cons x xs)
  show ?case
  proof (cases "CurrencyName x = CurrencyName t")
    case True
    with Cons.prems have "x = t"
      by (metis distinct.simps(2) imageI list.simps(9) set_ConsD set_map)
    moreover have "CurrencyName t \<notin> CurrencyName ` set xs"
      using Cons.prems True by auto
    ultimately show ?thesis
      using Cons.prems by (simp add: foldl_seedTotal_other seedTotal_nonpositive)
  next
    case False
    then have "t \<in> set xs" using Cons.prems by auto
    then show ?thesis
      using Cons False by (simp add: seedTotal_other)
  qed
qed

lemma seedExchange_other:
  "\<not> (Exchange d = e \<and> listsCurrency d c) \<Longrightarrow>
   entryCount (seedExchange port d) e c = entryCount port e c"
  unfolding seedExchange_def
  by (rule foldl_seedTotal_other) (simp add: exchangeTotals_names)

lemma seedExchange_nonpositive:
  assumes "Exchange d = e" and "listsCurrency d c"
    and "\<forall>t \<in> set (exchangeTotals d). CurrencyName t = c \<longrightarrow> TotalValue t \<le> 0"
  shows "entryCount (seedExchange port d) e c = entryCount port e c - 1"
proof -
  from assms(2) obtain t where t: "t \<in> set (exchangeTotals d)" "CurrencyName t = c"
    using exchangeTotals_names [of c d] by auto
  then have "TotalValue t \<le> 0"
    using assms(3) by blast
  then show ?thesis
    using foldl_seedTotal_nonpositive [OF exchangeTotals_distinct t(1), of e port] t(2) assms(1)
    by (simp add: seedExchange_def)
qed

lemma foldl_seedExchange_count:
  "\<forall>d \<in> set data. Exchange d = e \<longrightarrow>
     (\<forall>t \<in> set (exchangeTotals d). CurrencyName t = c \<longrightarrow> TotalValue t \<le> 0) \<Longrightarrow>
   entryCount (foldl seedExchange port data) e c =
   entryCount port e c - length (filter (\<lambda>d. Exchange d = e \<and> listsCurrency d c) data)"
proof (induction data arbitrary: port)
  case Nil
  then show ?case by simp
next
  case (Cons d data)
  have rest: "\<forall>d \<in> set data. Exchange d = e \<longrightarrow>
     (\<forall>t \<in> set (exchangeTotals d). CurrencyName t = c \<longrightarrow> TotalValue t \<le> 0)"
    using Cons.prems by simp
  have IH: "entryCount (foldl seedExchange (seedExchange port d) data) e c =
      entryCount (seedExchange port d) e c -
      length (filter (\<lambda>d. Exchange d = e \<and> listsCurrency d c) data)"
    using rest by (rule Cons.IH)
  show ?case
  proof (cases "Exchange d = e \<and> listsCurrency d c")
    case True
    then have "\<forall>t \<in> set (exchangeTotals d). CurrencyName t = c \<longrightarrow> TotalValue t \<le> 0"
      using Cons.prems by simp
    with True have "entryCount (seedExchange port d) e c = entryCount port e c - 1"
      by (simp add: seedExchange_nonpositive)
    then show ?thesis using IH True by simp
  next
    case False
    then have "entryCount (seedExchange port d) e c = entryCount port e c"
      by (rule seedExchange_other)
    then show ?thesis using IH False by auto
  qed
qed

text \<open>
  Claim C6, as amended. If the ledger contains an entry for an exchange name \<open>e\<close> and a
  currency name \<open>c\<close>, the account data passed to \<open>SeedExchangeAccountInfo\<close> lists \<open>c\<close> for
  \<open>e\<close>, and in every element of the data that carries the name \<open>e\<close> the total that the
  function accumulates for \<open>c\<close> (with the addition of the value type, in the order of the
  input) is zero or below, then after the call that entry has been removed: the ledger
  holds fewer entries for \<open>(e, c)\<close> than before and, the ledger having held one entry for
  \<open>(e, c)\<close>, it holds none.
\<close>

theorem SeedExchangeAccountInfo_removes_entry:
  assumes "ExchangeAddressExists port e c"
    and "list_ex (\<lambda>d. Exchange d = e \<and> listsCurrency d c) data"
    and "list_all (\<lambda>d. Exchange d = e \<longrightarrow>
            list_all (\<lambda>t. CurrencyName t = c \<longrightarrow> TotalValue t \<le> 0) (exchangeTotals d)) data"
  shows "entryCount (SeedExchangeAccountInfo data port) e c < entryCount port e c \<and>
         (entryCount port e c = 1 \<longrightarrow>
            \<not> ExchangeAddressExists (SeedExchangeAccountInfo data port) e c)"
proof -
  have pos: "0 < entryCount port e c"
    using assms(1) by (simp add: ExchangeAddressExists_count)
  have "filter (\<lambda>d. Exchange d = e \<and> listsCurrency d c) data \<noteq> []"
    using assms(2) by (auto simp: list_ex_iff filter_empty_conv)
  then have k: "0 < length (filter (\<lambda>d. Exchange d = e \<and> listsCurrency d c) data)"
    by simp
  have "\<forall>d \<in> set data. Exchange d = e \<longrightarrow>
     (\<forall>t \<in> set (exchangeTotals d). CurrencyName t = c \<longrightarrow> TotalValue t \<le> 0)"
    using assms(3) by (simp add: list_all_iff)
  then have "entryCount (foldl seedExchange port data) e c =
        entryCount port e c - length (filter (\<lambda>d. Exchange d = e \<and> listsCurrency d c) data)"
    by (rule foldl_seedExchange_count)
  then have lt: "entryCount (foldl seedExchange port data) e c < entryCount port e c"
    using pos k by simp
  have seed: "SeedExchangeAccountInfo data port = foldl seedExchange port data"
    by (cases data) (simp_all add: SeedExchangeAccountInfo_def)
  show ?thesis
    using lt by (auto simp: seed ExchangeAddressExists_count)
qed

text \<open>
  The scenario of the specification: the ledger has a Bitfinex BTC entry and the fetched
  Bitfinex BTC balance is 0. The totals the function accumulates for Bitfinex are 0 for BTC
  and 5 for LTC.
\<close>

theorem SeedExchangeAccountInfo_removes_entry_witness:
  "ExchangeAddressExists exampleLedger ''Bitfinex'' ''BTC'' \<and>
   exchangeTotals bitfinexAccounts =
     [\<lparr>CurrencyName = ''BTC'', TotalValue = 0, Hold = 0\<rparr>,
      \<lparr>CurrencyName = ''LTC'', TotalValue = 5, Hold = 1\<rparr>] \<and>
   entryCount exampleLedger ''Bitfinex'' ''BTC'' = 1 \<and>
   \<not> ExchangeAddressExists
       (SeedExchangeAccountInfo [bitfinexAccounts, krakenAccounts] exampleLedger)
       ''Bitfinex'' ''BTC''"
proof -
  have ex: "ExchangeAddressExists exampleLedger ''Bitfinex'' ''BTC''"
    by (simp add: ExchangeAddressExists_def exampleLedger_def isExchangeAddress_def)
  have lists: "list_ex (\<lambda>d. Exchange d = ''Bitfinex'' \<and> listsCurrency d ''BTC'')
                 [bitfinexAccounts, krakenAccounts]"
    by (simp add: bitfinexAccounts_def listsCurrency_def accountCurrencies_def)
  have totals: "exchangeTotals bitfinexAccounts =
     [\<lparr>CurrencyName = ''BTC'', TotalValue = 0, Hold = 0\<rparr>,
      \<lparr>CurrencyName = ''LTC'', TotalValue = 5, Hold = 1\<rparr>]"
    by (simp add: bitfinexAccounts_def exchangeTotals_def accountCurrencies_def
        sumCurrency_def)
  have kraken: "Exchange krakenAccounts \<noteq> ''Bitfinex''"
    by (simp add: krakenAccounts_def)
  have all: "list_all (\<lambda>d. Exchange d = ''Bitfinex'' \<longrightarrow>
            list_all (\<lambda>t. CurrencyName t = ''BTC'' \<longrightarrow> TotalValue t \<le> 0) (exchangeTotals d))
          [bitfinexAccounts, krakenAccounts]"
    using kraken by (simp add: totals)
  have one: "entryCount exampleLedger ''Bitfinex'' ''BTC'' = 1"
    by (simp add: entryCount_def exampleLedger_def isExchangeAddress_def)
  show ?thesis
    using SeedExchangeAccountInfo_removes_entry [OF ex lists all] ex totals one by simp
qed

text \<open>
  Claim C6 as stated fails when the account data holds two elements of one exchange. The
  ledger has a Bitfinex BTC entry; the data lists BTC for Bitfinex twice, with the totals
  -5 and 5, so the summed TotalValue for Bitfinex and BTC is 0. The first element removes
  the entry, the second one finds none and a positive total and adds a new entry: after
  the call the ledger has a Bitfinex BTC entry.
\<close>

theorem SeedExchangeAccountInfo_removes_entry_counterexample:
  "ExchangeAddressExists exampleLedger ''Bitfinex'' ''BTC'' \<and>
   summedOverData splitAccounts ''Bitfinex'' ''BTC'' = 0 \<and>
   SeedExchangeAccountInfo splitAccounts exampleLedger =
     [\<lparr>Address = ''Bitfinex'', CoinType = ''LTC'', Balance = 5,
       Description = PortfolioAddressExchange\<rparr>,
      \<lparr>Address = ''Bitfinex'', CoinType = ''BTC'', Balance = 5,
       Description = PortfolioAddressExchange\<rparr>] \<and>
   ExchangeAddressExists (SeedExchangeAccountInfo splitAccounts exampleLedger)
     ''Bitfinex'' ''BTC''"
  by (simp add: SeedExchangeAccountInfo_def seedExchange_def exchangeTotals_def
      accountCurrencies_def sumCurrency_def seedTotal_def ExchangeAddressExists_def
      isExchangeAddress_def splitAccounts_def exampleLedger_def summedOverData_def
      summedTotalValue_def)

subsection \<open>No change where the ledger agrees with the fetched total\<close>

lemma inAgreement_entries:
  "filter (isExchangeAddress e c) port' = filter (isExchangeAddress e c) port \<Longrightarrow>
   inAgreement port' e c b = inAgreement port e c b"
  unfolding inAgreement_def ExchangeAddressExists_entries
  by (metis GetAddressBalance_entries)

lemma seedTotal_unchanged:
  "inAgreement port e (CurrencyName t) (TotalValue t) \<Longrightarrow> seedTotal e port t = port"
  by (simp add: inAgreement_def seedTotal_def Let_def less_le_not_le)

lemma foldl_seedTotal_frame:
  "inAgreement port e c b \<Longrightarrow>
   \<forall>t \<in> set ts. e' = e \<and> CurrencyName t = c \<longrightarrow> TotalValue t = b \<Longrightarrow>
   filter (isExchangeAddress e c) (foldl (seedTotal e') port ts) =
   filter (isExchangeAddress e c) port"
proof (induction ts arbitrary: port)
  case Nil
  then show ?case by simp
next
  case (Cons t ts)
  have step: "filter (isExchangeAddress e c) (seedTotal e' port t) =
              filter (isExchangeAddress e c) port"
  proof (cases "e' = e \<and> CurrencyName t = c")
    case True
    then have "TotalValue t = b"
      using Cons.prems(2) by simp
    then have "inAgreement port e' (CurrencyName t) (TotalValue t)"
      using Cons.prems(1) True by simp
    then show ?thesis by (simp only: seedTotal_unchanged)
  next
    case False
    then have "e' \<noteq> e \<or> CurrencyName t \<noteq> c" by blast
    then show ?thesis by (rule seedTotal_other_entries)
  qed
  have agree: "inAgreement (seedTotal e' port t) e c b"
    using Cons.prems(1) inAgreement_entries [OF step] by simp
  have rest: "\<forall>t \<in> set ts. e' = e \<and> CurrencyName t = c \<longrightarrow> TotalValue t = b"
    using Cons.prems(2) by simp
  have "filter (isExchangeAddress e c) (foldl (seedTotal e') (seedTotal e' port t) ts) =
        filter (isExchangeAddress e c) (seedTotal e' port t)"
    using agree rest by (rule Cons.IH)
  then show ?case by (simp only: foldl_Cons step)
qed

lemma seedExchange_frame:
  assumes "inAgreement port e c b"
    and "Exchange d = e \<longrightarrow>
           (\<forall>t \<in> set (exchangeTotals d). CurrencyName t = c \<longrightarrow> TotalValue t = b)"
  shows "filter (isExchangeAddress e c) (seedExchange port d) =
         filter (isExchangeAddress e c) port"
proof -
  have "\<forall>t \<in> set (exchangeTotals d).
          Exchange d = e \<and> CurrencyName t = c \<longrightarrow> TotalValue t = b"
    using assms(2) by blast
  with assms(1) show ?thesis
    unfolding seedExchange_def by (rule foldl_seedTotal_frame)
qed

lemma foldl_seedExchange_frame:
  "inAgreement port e c b \<Longrightarrow>
   \<forall>d \<in> set data. Exchange d = e \<longrightarrow>
     (\<forall>t \<in> set (exchangeTotals d). CurrencyName t = c \<longrightarrow> TotalValue t = b) \<Longrightarrow>
   filter (isExchangeAddress e c) (foldl seedExchange port data) =
   filter (isExchangeAddress e c) port"
proof (induction data arbitrary: port)
  case Nil
  then show ?case by simp
next
  case (Cons d data)
  have here: "Exchange d = e \<longrightarrow>
      (\<forall>t \<in> set (exchangeTotals d). CurrencyName t = c \<longrightarrow> TotalValue t = b)"
    using Cons.prems(2) by simp
  have step: "filter (isExchangeAddress e c) (seedExchange port d) =
              filter (isExchangeAddress e c) port"
    using Cons.prems(1) here by (rule seedExchange_frame)
  have agree: "inAgreement (seedExchange port d) e c b"
    using Cons.prems(1) inAgreement_entries [OF step] by simp
  have rest: "\<forall>d \<in> set data. Exchange d = e \<longrightarrow>
      (\<forall>t \<in> set (exchangeTotals d). CurrencyName t = c \<longrightarrow> TotalValue t = b)"
    using Cons.prems(2) by simp
  have "filter (isExchangeAddress e c) (foldl seedExchange (seedExchange port d) data) =
        filter (isExchangeAddress e c) (seedExchange port d)"
    using agree rest by (rule Cons.IH)
  then show ?case by (simp only: foldl_Cons step)
qed

text \<open>
  Claim C10. \<open>SeedExchangeAccountInfo\<close> changes the ledger only where the summed total
  disagrees with the stored state. Called with an empty input list it returns the ledger
  unchanged. For an existing entry whose stored balance equals the positive fetched total,
  the reconciliation step of that exchange and currency returns the ledger unchanged (no
  add, no removal, no balance update). Over a whole call, when every total that the
  function accumulates for that exchange and currency equals the stored positive balance,
  the entries of that exchange and currency are the same afterwards, whatever happens to
  other entries.
\<close>

theorem SeedExchangeAccountInfo_frame:
  "SeedExchangeAccountInfo [] port = port \<and>
   (inAgreement port e (CurrencyName t) (TotalValue t) \<longrightarrow> seedTotal e port t = port) \<and>
   (inAgreement port e c b \<and>
    list_all (\<lambda>d. Exchange d = e \<longrightarrow>
       list_all (\<lambda>t. CurrencyName t = c \<longrightarrow> TotalValue t = b) (exchangeTotals d)) data \<longrightarrow>
      filter (isExchangeAddress e c) (SeedExchangeAccountInfo data port) =
      filter (isExchangeAddress e c) port)"
proof (intro conjI impI)
  show "SeedExchangeAccountInfo [] port = port"
    by (simp add: SeedExchangeAccountInfo_def)
next
  assume "inAgreement port e (CurrencyName t) (TotalValue t)"
  then show "seedTotal e port t = port" by (rule seedTotal_unchanged)
next
  assume a: "inAgreement port e c b \<and>
    list_all (\<lambda>d. Exchange d = e \<longrightarrow>
       list_all (\<lambda>t. CurrencyName t = c \<longrightarrow> TotalValue t = b) (exchangeTotals d)) data"
  have seed: "SeedExchangeAccountInfo data port = foldl seedExchange port data"
    by (cases data) (simp_all add: SeedExchangeAccountInfo_def)
  have "inAgreement port e c b" using a by blast
  moreover have "\<forall>d \<in> set data. Exchange d = e \<longrightarrow>
      (\<forall>t \<in> set (exchangeTotals d). CurrencyName t = c \<longrightarrow> TotalValue t = b)"
    using a by (simp add: list_all_iff)
  ultimately show "filter (isExchangeAddress e c) (SeedExchangeAccountInfo data port) =
        filter (isExchangeAddress e c) port"
    unfolding seed by (rule foldl_seedExchange_frame)
qed

text \<open>
  In the example the ledger stores 5 for Bitfinex LTC and the total accumulated for
  Bitfinex LTC is 5: the step changes nothing, and the call, which removes the BTC entry
  and adds one for Kraken, keeps the LTC entry as it is.
\<close>

theorem SeedExchangeAccountInfo_frame_witness:
  "inAgreement exampleLedger ''Bitfinex'' ''LTC'' 5 \<and>
   exchangeTotals bitfinexAccounts =
     [\<lparr>CurrencyName = ''BTC'', TotalValue = 0, Hold = 0\<rparr>,
      \<lparr>CurrencyName = ''LTC'', TotalValue = 5, Hold = 1\<rparr>] \<and>
   seedTotal ''Bitfinex'' exampleLedger \<lparr>CurrencyName = ''LTC'', TotalValue = 5, Hold = 1\<rparr> =
     exampleLedger \<and>
   filter (isExchangeAddress ''Bitfinex'' ''LTC'')
     (SeedExchangeAccountInfo [bitfinexAccounts, krakenAccounts] exampleLedger) =
   filter (isExchangeAddress ''Bitfinex'' ''LTC'') exampleLedger"
proof -
  have agree: "inAgreement exampleLedger ''Bitfinex'' ''LTC'' 5"
    by (simp add: inAgreement_def ExchangeAddressExists_def exampleLedger_def
        isExchangeAddress_def)
  have totals: "exchangeTotals bitfinexAccounts =
     [\<lparr>CurrencyName = ''BTC'', TotalValue = 0, Hold = 0\<rparr>,
      \<lparr>CurrencyName = ''LTC'', TotalValue = 5, Hold = 1\<rparr>]"
    by (simp add: bitfinexAccounts_def exchangeTotals_def accountCurrencies_def
        sumCurrency_def)
  have kraken: "Exchange krakenAccounts \<noteq> ''Bitfinex''"
    by (simp add: krakenAccounts_def)
  have all: "list_all (\<lambda>d. Exchange d = ''Bitfinex'' \<longrightarrow>
       list_all (\<lambda>t. CurrencyName t = ''LTC'' \<longrightarrow> TotalValue t = 5) (exchangeTotals d))
     [bitfinexAccounts, krakenAccounts]"
    using kraken by (simp add: totals)
  show ?thesis
    using SeedExchangeAccountInfo_frame
            [of exampleLedger "''Bitfinex''"
                "\<lparr>CurrencyName = ''LTC'', TotalValue = 5, Hold = 1\<rparr>" "''LTC''" 5
                "[bitfinexAccounts, krakenAccounts]"]
          agree totals all
    by simp
qed

text \<open>The whole call on the example, evaluated.\<close>

lemma SeedExchangeAccountInfo_example:
  "SeedExchangeAccountInfo [bitfinexAccounts, krakenAccounts] exampleLedger =
     [\<lparr>Address = ''Bitfinex'', CoinType = ''LTC'', Balance = 5,
       Description = PortfolioAddressExchange\<rparr>,
      \<lparr>Address = ''Kraken'', CoinType = ''BTC'', Balance = 4,
       Description = PortfolioAddressExchange\<rparr>]"
  by (simp add: SeedExchangeAccountInfo_def seedExchange_def exchangeTotals_def
      accountCurrencies_def sumCurrency_def seedTotal_def ExchangeAddressExists_def
      isExchangeAddress_def bitfinexAccounts_def krakenAccounts_def exampleLedger_def)

section \<open>Properties of the polling tasks\<close>

lemma fetches_Nil: "fetches [] = []"
  by (simp add: fetches_def)

lemma fetches_append: "fetches (xs @ ys) = fetches xs @ fetches ys"
  by (simp add: fetches_def)

lemma fetches_concat: "fetches (concat xss) = concat (map fetches xss)"
  by (induction xss) (simp_all add: fetches_append fetches_Nil)

lemma fetches_processTicker:
  "fetches (processTicker ws n exch update c a) =
     [if update then CallUpdateTicker (GetName exch) c a
      else CallFetchTicker (GetName exch) c a]"
  by (simp add: processTicker_def fetches_def Let_def split: prod.splits)

lemma fetches_processOrderbook:
  "fetches (processOrderbook ws n exch c a) = [CallUpdateOrderbook (GetName exch) c a]"
  by (simp add: processOrderbook_def fetches_def Let_def split: prod.splits)

lemma fetches_tickerPairs_later:
  "0 < z \<Longrightarrow>
   fetches (tickerPairs ws n exch True a z cs) = map (\<lambda>c. CallFetchTicker (GetName exch) c a) cs"
  by (induction cs arbitrary: z)
    (simp_all add: fetches_append fetches_processTicker fetches_Nil)

lemma fetches_tickerPairs_batch:
  "fetches (tickerPairs ws n exch True a 0 cs) =
     (case cs of
        [] \<Rightarrow> []
      | c # rest \<Rightarrow> CallUpdateTicker (GetName exch) c a #
                    map (\<lambda>c. CallFetchTicker (GetName exch) c a) rest)"
  by (cases cs)
    (simp_all add: fetches_append fetches_processTicker fetches_tickerPairs_later fetches_Nil)

text \<open>Without batch support every enabled pair is updated over the network.\<close>

lemma fetches_tickerPairs_single:
  "fetches (tickerPairs ws n exch False a z cs) =
     map (\<lambda>c. CallUpdateTicker (GetName exch) c a) cs"
  by (induction cs arbitrary: z)
    (simp_all add: fetches_append fetches_processTicker fetches_Nil)

text \<open>
  The part of claim C1 that the code keeps: the task of a nil registry entry and the task
  of an exchange without REST support do nothing at all.
\<close>

lemma task_skips_nil_and_no_REST:
  "tickerTask ws None = [] \<and> orderbookTask ws None = [] \<and>
   (\<not> SupportsREST exch \<longrightarrow>
      tickerTask ws (Some exch) = [] \<and> orderbookTask ws (Some exch) = [])"
  by (simp add: tickerTask_def orderbookTask_def)

text \<open>
  The tasks never read \<open>IsEnabled\<close>: the trace of an exchange is the same whatever the flag.
\<close>

lemma task_ignores_IsEnabled:
  "tickerTask ws (Some (exch\<lparr>IsEnabled := b\<rparr>)) = tickerTask ws (Some exch) \<and>
   orderbookTask ws (Some (exch\<lparr>IsEnabled := b\<rparr>)) = orderbookTask ws (Some exch)"
proof -
  have "tickerPairs ws n (exch\<lparr>IsEnabled := b\<rparr>) sb a z cs = tickerPairs ws n exch sb a z cs"
    for n sb a z cs
    by (induction cs arbitrary: z) (simp_all add: processTicker_def)
  then show ?thesis
    by (simp add: tickerTask_def orderbookTask_def processOrderbook_def)
qed

text \<open>
  Claim C1 says that a disabled exchange is never fetched from during an iteration. The
  code at this input: the registry holds a nil entry, the disabled exchange ANX, which
  supports REST, and the enabled exchange Yobit, which does not. In one iteration of either
  routine the tasks of the nil entry and of Yobit call nothing, and the task of the
  disabled ANX calls the exchange for each of its two enabled pairs.
\<close>

theorem disabled_exchange_is_fetched:
  "\<not> IsEnabled (exchangeWith ''ANX'' False True False [''Spot'']) \<and>
   map fetches (tickerIteration False
      [None, Some (exchangeWith ''ANX'' False True False [''Spot'']),
       Some (exchangeWith ''Yobit'' True False False [''Spot''])]) =
     [[], [CallUpdateTicker ''ANX'' btcusd ''Spot'', CallUpdateTicker ''ANX'' ltcusd ''Spot''],
      []] \<and>
   map fetches (orderbookIteration False
      [None, Some (exchangeWith ''ANX'' False True False [''Spot'']),
       Some (exchangeWith ''Yobit'' True False False [''Spot''])]) =
     [[], [CallUpdateOrderbook ''ANX'' btcusd ''Spot'',
           CallUpdateOrderbook ''ANX'' ltcusd ''Spot''],
      []]"
  by (simp add: tickerIteration_def orderbookIteration_def exchangeWith_def tickerTask_def
      orderbookTask_def fetches_def processTicker_def processOrderbook_def Let_def)

text \<open>
  Claim C4, as amended. For every non-nil exchange that supports REST and whose
  \<open>SupportsRESTTickerBatchUpdates()\<close> is true, the ticker task of one polling iteration
  calls, for each asset type of the exchange in turn, \<open>UpdateTicker\<close> for the first enabled
  pair of that asset type and \<open>FetchTicker\<close> for every subsequent enabled pair of that asset
  type; it makes no other call to the exchange.
\<close>

theorem tickerTask_batching:
  assumes "SupportsREST exch" and "SupportsRESTTickerBatchUpdates exch"
  shows "fetches (tickerTask ws (Some exch)) =
     concat (map (\<lambda>assetType.
        case GetEnabledPairs exch assetType of
          [] \<Rightarrow> []
        | c # rest \<Rightarrow> CallUpdateTicker (GetName exch) c assetType #
                      map (\<lambda>c. CallFetchTicker (GetName exch) c assetType) rest)
       (GetAssetTypes exch))"
  using assms
  by (simp add: tickerTask_def Let_def fetches_concat comp_def fetches_tickerPairs_batch)

theorem tickerTask_batching_witness:
  "SupportsREST (exchangeWith ''OKEX'' True True True [''Spot'']) \<and>
   SupportsRESTTickerBatchUpdates (exchangeWith ''OKEX'' True True True [''Spot'']) \<and>
   fetches (tickerTask False (Some (exchangeWith ''OKEX'' True True True [''Spot'']))) =
     [CallUpdateTicker ''OKEX'' btcusd ''Spot'', CallFetchTicker ''OKEX'' ltcusd ''Spot'']"
  using tickerTask_batching [of "exchangeWith ''OKEX'' True True True [''Spot'']" False]
  by (simp add: exchangeWith_def)

text \<open>
  Claim C4 as stated fails for an exchange with two asset types: the index of the inner
  loop restarts with every asset type, so the third pair fetched in the iteration, the
  first one of the second asset type, is updated over the network again.
\<close>

theorem tickerTask_batching_counterexample:
  "SupportsRESTTickerBatchUpdates (exchangeWith ''OKEX'' True True True [''Spot'', ''Futures'']) \<and>
   fetches (tickerTask False
      (Some (exchangeWith ''OKEX'' True True True [''Spot'', ''Futures'']))) =
     [CallUpdateTicker ''OKEX'' btcusd ''Spot'', CallFetchTicker ''OKEX'' ltcusd ''Spot'',
      CallUpdateTicker ''OKEX'' btcusd ''Futures'', CallFetchTicker ''OKEX'' ltcusd ''Futures'']"
  by (simp add: exchangeWith_def tickerTask_def fetches_def processTicker_def Let_def)

section \<open>Properties of the lookups by exchange name\<close>

lemma GetSpecificTicker_not_found:
  "\<forall>e. Some e \<in> set exchanges \<longrightarrow> GetName e \<noteq> exchangeName \<Longrightarrow>
   GetSpecificTicker zero f exchanges currency exchangeName assetType = (zero, None)"
  by (induction zero f exchanges currency exchangeName assetType
      rule: GetSpecificTicker.induct) auto

lemma GetSpecificOrderbook_not_found:
  "\<forall>e. Some e \<in> set exchanges \<longrightarrow> GetName e \<noteq> exchangeName \<Longrightarrow>
   GetSpecificOrderbook zero f exchanges currency exchangeName assetType = (zero, None)"
  by (induction zero f exchanges currency exchangeName assetType
      rule: GetSpecificOrderbook.induct) auto

text \<open>
  The part of claim C3 that the code keeps: \<open>GetAccountCurrencyInfoByExchangeName\<close> returns
  the exchange-not-found error when no account info carries the name.
\<close>

lemma GetAccountCurrencyInfoByExchangeName_not_found:
  "\<forall>a \<in> set accounts. Exchange a \<noteq> exchangeName \<Longrightarrow>
   snd (GetAccountCurrencyInfoByExchangeName accounts exchangeName) = Some ErrExchangeNotFound"
  by (induction accounts) auto

text \<open>
  Claim C3 says that a lookup by a name that no exchange has returns a non-nil
  exchange-not-found error. The code at this input: the registry holds ANX only and the
  lookup asks for Kraken; \<open>GetSpecificTicker\<close> and \<open>GetSpecificOrderbook\<close> both return the zero
  value together with a nil error.
\<close>

theorem lookup_unknown_exchange_nil_error:
  "GetSpecificTicker 0 (\<lambda>s. btcusd) [Some (exchangeWith ''ANX'' True True False [''Spot''])]
     ''BTCUSD'' ''Kraken'' ''Spot'' = (0, None) \<and>
   GetSpecificOrderbook 0 (\<lambda>s. btcusd) [Some (exchangeWith ''ANX'' True True False [''Spot''])]
     ''BTCUSD'' ''Kraken'' ''Spot'' = (0, None)"
  by (simp add: exchangeWith_def)

end
